theory Spec2Isabelle
  imports Main "HOL-Library.Word" "HOL-Library.Sublist"
begin

section \<open>The integration harness of internal/integration/integration.go\<close>

text \<open>
  The harness assembles an in-process server from external packages, seeds
  fixture records and returns a client. Everything the harness calls outside
  its own file (providers, handler constructors, the test object \<open>tb\<close>, the
  clock, the underlying HTTP transport) is either a parameter of the model or a
  recorded effect on an explicit state.
\<close>

subsection \<open>The transport shim: \<open>prefixRoundTripper\<close>\<close>

text \<open>
  A \<open>*url.URL\<close> is a pointer: the request holds an address and the URL value lives
  in a store, so that the in-place assignment \<open>u.Scheme = "http"\<close> is visible to
  every holder of the same pointer. \<open>None\<close> is the nil pointer.
\<close>

type_synonym ptr = nat

record URL =
  Scheme :: string
  Opaque :: string
  Host :: string
  Path :: string
  RawQuery :: string
  Fragment :: string

type_synonym url_store = "ptr \<rightharpoonup> URL"

record Request =
  Method :: string
  URL :: "ptr option"

text \<open>\<open>http.DefaultTransport\<close> is the only underlying transport the harness installs.\<close>

datatype RoundTripper = DefaultTransport

record prefixRoundTripper =
  addr :: string
  rt :: RoundTripper

datatype panic = NilPointerDereference

text \<open>
  \<open>RoundTrip\<close> (lines 194-204). The behaviour of the wrapped transport is the
  parameter \<open>send\<close>: it receives the store as the shim left it and the request.
  Reading \<open>u.Scheme\<close> through a nil \<open>r.URL\<close> panics.
\<close>

definition RoundTrip ::
  "(RoundTripper \<Rightarrow> url_store \<Rightarrow> Request \<Rightarrow> 'r) \<Rightarrow> prefixRoundTripper \<Rightarrow> url_store \<Rightarrow> Request
     \<Rightarrow> panic + (url_store \<times> 'r)" where
  "RoundTrip send p h r =
     (case URL r of
        None \<Rightarrow> Inl NilPointerDereference
      | Some u \<Rightarrow>
          (case h u of
             None \<Rightarrow> Inl NilPointerDereference
           | Some v \<Rightarrow>
               let h1 = (if Scheme v = [] then h(u \<mapsto> v\<lparr>Scheme := ''http''\<rparr>) else h);
                   h2 = (case h1 u of
                           None \<Rightarrow> h1
                         | Some v1 \<Rightarrow> if Host v1 = [] then h1(u \<mapsto> v1\<lparr>Host := addr p\<rparr>) else h1)
               in Inr (h2, send (rt p) h2 r)))"

text \<open>The URL value the shim leaves behind, as a function of the one it found.\<close>

definition rewritten :: "prefixRoundTripper \<Rightarrow> URL \<Rightarrow> URL" where
  "rewritten p v =
     v\<lparr>Scheme := (if Scheme v = [] then ''http'' else Scheme v),
       Host := (if Host v = [] then addr p else Host v)\<rparr>"

subsection \<open>Values the harness builds\<close>

text \<open>
  \<open>time.Duration\<close> is a signed 64-bit count of nanoseconds. An instant is taken as
  an unbounded count of nanoseconds since the epoch; \<open>Add\<close> shifts it by the signed
  value of the duration.
\<close>

type_synonym duration = "64 word"
type_synonym instant = int
type_synonym int64 = "64 word"
type_synonym err = string

definition Second :: duration where "Second = 1000000000"
definition Minute :: duration where "Minute = 60 * Second"
definition Hour :: duration where "Hour = 60 * Minute"

definition time_Add :: "instant \<Rightarrow> duration \<Rightarrow> instant" where
  "time_Add t d = t + sint d"

definition exportDir :: string where "exportDir = ''my-bucket''"

text \<open>
  The record types below belong to other packages; they carry the fields that the
  composite literals of this file set. A slice is a list option: \<open>None\<close> is the nil
  slice, \<open>Some []\<close> is the empty slice \<open>[]int64{}\<close>.
\<close>

record AuthorizedApp =
  AppPackageName :: string
  AllowedRegions :: "string set"
  AllowedHealthAuthorityIDs :: "int64 set"
  BypassHealthAuthorityVerification :: bool

record SignatureInfo =
  SigningKey :: string
  SigningKeyVersion :: string
  SigningKeyID :: string

record ExportConfig =
  BucketName :: string
  Period :: duration
  OutputRegion :: string
  From :: instant
  Thru :: instant
  SignatureInfoIDs :: "int64 list option"

record cleanup_Config =
  cleanup_Timeout :: duration
  cleanup_TTL :: duration

record export_Config =
  CreateTimeout :: duration
  WorkerTimeout :: duration
  MinRecords :: int
  PaddingRange :: int
  MaxRecords :: int
  export_TruncateWindow :: duration
  MinWindowAge :: duration
  export_TTL :: duration

record federationin_Config =
  federationin_Timeout :: duration
  federationin_TruncateWindow :: duration

record publish_Config =
  MaxKeysOnPublish :: int
  MaxSameStartIntervalKeys :: int
  MaxIntervalAge :: duration
  CreatedAtTruncateWindow :: duration
  ReleaseSameDayKeys :: bool

text \<open>The five providers the harness creates, and the environment that holds them.\<close>

datatype AuthorizedAppProvider = MemoryProvider
datatype Blobstore = MemoryBlobstore
datatype DB = TestDatabase
datatype KeyManager = NoopKeyManager
datatype SecretManager = NoopSecretManager

record ServerEnv =
  authorizedAppProvider :: "AuthorizedAppProvider option"
  blobstore :: "Blobstore option"
  database :: "DB option"
  keyManager :: "KeyManager option"
  secretManager :: "SecretManager option"

text \<open>
  Modelled from the spec: package serverenv is not part of the sources at hand.
  \<open>serverenv.New\<close> starts from an environment with no provider bound and applies the
  options in order; each \<open>With...\<close> option binds one provider.
\<close>

definition serverenv_New :: "(ServerEnv \<Rightarrow> ServerEnv) list \<Rightarrow> ServerEnv" where
  "serverenv_New opts =
     fold (\<lambda>opt env. opt env) opts
       \<lparr>authorizedAppProvider = None, blobstore = None, database = None,
        keyManager = None, secretManager = None\<rparr>"

definition WithAuthorizedAppProvider :: "AuthorizedAppProvider \<Rightarrow> ServerEnv \<Rightarrow> ServerEnv" where
  "WithAuthorizedAppProvider aa env = env\<lparr>authorizedAppProvider := Some aa\<rparr>"

definition WithBlobStorage :: "Blobstore \<Rightarrow> ServerEnv \<Rightarrow> ServerEnv" where
  "WithBlobStorage bs env = env\<lparr>blobstore := Some bs\<rparr>"

definition WithDatabase :: "DB \<Rightarrow> ServerEnv \<Rightarrow> ServerEnv" where
  "WithDatabase db env = env\<lparr>database := Some db\<rparr>"

definition WithKeyManager :: "KeyManager \<Rightarrow> ServerEnv \<Rightarrow> ServerEnv" where
  "WithKeyManager km env = env\<lparr>keyManager := Some km\<rparr>"

definition WithSecretManager :: "SecretManager \<Rightarrow> ServerEnv \<Rightarrow> ServerEnv" where
  "WithSecretManager sm env = env\<lparr>secretManager := Some sm\<rparr>"

text \<open>
  Handlers are opaque values named after their constructors; \<open>Routes\<close> is the handler
  that an export server hands out, \<open>StripPrefix\<close> is \<open>http.StripPrefix\<close> around
  another handler.
\<close>

datatype export_Server = ExportServer export_Config ServerEnv

datatype handler =
    CleanupExportHandler cleanup_Config ServerEnv
  | CleanupExposureHandler cleanup_Config ServerEnv
  | Routes export_Server
  | FederationInHandler ServerEnv federationin_Config
  | PublishHandler publish_Config ServerEnv
  | StripPrefix string handler

type_synonym ServeMux = "(string \<times> handler) list"

text \<open>\<open>mux.Handle\<close> registers one more pattern.\<close>

definition Handle :: "string \<Rightarrow> handler \<Rightarrow> ServeMux \<Rightarrow> ServeMux" where
  "Handle pattern h m = m @ [(pattern, h)]"

text \<open>
  Go's \<open>ServeMux\<close> treats a pattern that ends in a slash as a subtree (every path
  below it matches) and any other pattern as one exact path.
\<close>

definition subtree_pattern :: "string \<Rightarrow> bool" where
  "subtree_pattern pattern = (pattern \<noteq> [] \<and> last pattern = CHR ''/'')"

text \<open>
  What a registered handler hands on for a request path: \<open>http.StripPrefix\<close> cuts the
  prefix off and answers 404 (here \<open>None\<close>) when the path does not start with it; every
  other handler receives the path as it came.
\<close>

fun delegate :: "handler \<Rightarrow> string \<Rightarrow> (handler \<times> string) option" where
  "delegate (StripPrefix pre h) path =
     (if prefix pre path then delegate h (drop (length pre) path) else None)"
| "delegate h path = Some (h, path)"

fun strips :: "handler \<Rightarrow> bool" where
  "strips (StripPrefix pre h) = True"
| "strips h = False"

record Client =
  Timeout :: duration
  Transport :: prefixRoundTripper

record EnServerClient =
  client :: Client


subsection \<open>The state the harness acts on\<close>

text \<open>
  The steps of a setup are recorded as events, in program order of the calling
  goroutine: the calls into other packages, the \<open>go\<close> statement that launches the
  serving loop (\<open>Ev_Go\<close>) and the two client constructions (\<open>Ev_TestClient\<close>,
  \<open>Ev_EnServerClient\<close>).
\<close>

datatype event =
    Ev_NewMemoryProvider
  | Ev_NewMemory
  | Ev_NewTestDatabase
  | Ev_KeysNewNoop
  | Ev_SecretsNewNoop
  | Ev_ServerenvNew
  | Ev_NewExportHandler
  | Ev_NewExposureHandler
  | Ev_ExportNewServer
  | Ev_FederationinNewHandler
  | Ev_PublishNewHandler
  | Ev_Handle string
  | Ev_ServerNew
  | Ev_WithCancel
  | Ev_TbCleanup
  | Ev_Go
  | Ev_TestClient
  | Ev_EnServerClient
  | Ev_Add
  | Ev_AddSignatureInfo
  | Ev_TimeNow
  | Ev_AddExportConfig

datatype db_status = NotCreated | Opened | Closed

datatype db_row = SignatureInfoRow SignatureInfo | ExportConfigRow ExportConfig

text \<open>
  Functions handed to \<open>tb.Cleanup\<close>: \<open>Stop\<close> is the harness's own (it cancels
  \<open>stopCtx\<close>), \<open>HelperCloseDatabase\<close> belongs to the test-database helper.
\<close>

datatype cleanup_fn = Stop | HelperCloseDatabase

datatype Server = Server string

fun Addr :: "Server \<Rightarrow> string" where
  "Addr (Server a) = a"

record harness =
  events :: "event list"
  fatal_log :: "err list"
  error_log :: "err list"
  panic_log :: "string list"
  apps :: "AuthorizedApp list"
  db_status :: db_status
  db_rows :: "db_row list"
  cleanups :: "cleanup_fn list"
  clock_reads :: nat
  serving :: "ServeMux option"
  cancelled :: bool

text \<open>
  What the surroundings decide: whether a fallible call returns an error, what the
  clock shows at its n-th reading, and the address the listener is bound to.
\<close>

record world =
  outcome :: "event \<Rightarrow> err option"
  now :: "nat \<Rightarrow> instant"
  bound_addr :: string

definition fresh :: harness where
  "fresh = \<lparr>events = [], fatal_log = [], error_log = [], panic_log = [], apps = [],
            db_status = NotCreated, db_rows = [], cleanups = [], clock_reads = 0,
            serving = None, cancelled = False\<rparr>"

definition record_event :: "event \<Rightarrow> harness \<Rightarrow> harness" where
  "record_event ev s = s\<lparr>events := events s @ [ev]\<rparr>"

text \<open>
  \<open>tb.Fatal\<close> logs the error and stops the calling goroutine: the run ends in \<open>Inl\<close>
  of the state reached. A nil dereference ends it the same way, in the panic log.
\<close>

definition tb_Fatal :: "err \<Rightarrow> harness \<Rightarrow> harness" where
  "tb_Fatal e s = s\<lparr>fatal_log := fatal_log s @ [e]\<rparr>"

definition tb_Error :: "err \<Rightarrow> harness \<Rightarrow> harness" where
  "tb_Error e s = s\<lparr>error_log := error_log s @ [e]\<rparr>"

definition go_panic :: "string \<Rightarrow> harness \<Rightarrow> harness" where
  "go_panic msg s = s\<lparr>panic_log := panic_log s @ [msg]\<rparr>"

definition tb_Cleanup :: "cleanup_fn \<Rightarrow> harness \<Rightarrow> harness" where
  "tb_Cleanup f s = s\<lparr>cleanups := cleanups s @ [f]\<rparr>"

text \<open>
  The pattern \<open>x, err := f(...); if err != nil { tb.Fatal(err) }\<close>: the call has given
  a state and either an error or a value.
\<close>

fun orFatal :: "harness \<times> (err + 'a) \<Rightarrow> (harness \<Rightarrow> 'a \<Rightarrow> harness + 'b) \<Rightarrow> harness + 'b" where
  "orFatal (s, Inl e) k = Inl (tb_Fatal e s)"
| "orFatal (s, Inr x) k = k s x"

text \<open>A fallible constructor of another package: recorded, then error or value.\<close>

definition construct :: "world \<Rightarrow> event \<Rightarrow> 'a \<Rightarrow> harness \<Rightarrow> harness \<times> (err + 'a)" where
  "construct w ev x s =
     (record_event ev s, case outcome w ev of Some e \<Rightarrow> Inl e | None \<Rightarrow> Inr x)"

text \<open>
  Modelled from the spec: \<open>authorizedapp.NewMemoryProvider\<close> is not part of the sources
  at hand. With no configuration it gives a new in-memory registry that holds no
  application, or an error.
\<close>

definition NewMemoryProvider :: "world \<Rightarrow> harness \<Rightarrow> harness \<times> (err + AuthorizedAppProvider)" where
  "NewMemoryProvider w s =
     (case outcome w Ev_NewMemoryProvider of
        Some e \<Rightarrow> (record_event Ev_NewMemoryProvider s, Inl e)
      | None \<Rightarrow> (record_event Ev_NewMemoryProvider (s\<lparr>apps := []\<rparr>), Inr MemoryProvider))"

text \<open>
  Modelled from the spec: \<open>database.NewTestDatabase\<close> is not part of the sources at
  hand. It gives a disposable store, opened empty, which the helper itself closes by a
  cleanup of its own; it has no error return.
\<close>

definition NewTestDatabase :: "harness \<Rightarrow> harness \<times> DB" where
  "NewTestDatabase s =
     (tb_Cleanup HelperCloseDatabase
        (record_event Ev_NewTestDatabase (s\<lparr>db_status := Opened, db_rows := []\<rparr>)),
      TestDatabase)"

text \<open>
  Modelled from the spec: the provider's \<open>Add\<close> is not part of the sources at hand. A
  call that returns no error has added exactly the given application to the registry,
  and one that returns an error has added nothing.
\<close>

definition Add :: "world \<Rightarrow> AuthorizedAppProvider \<Rightarrow> AuthorizedApp \<Rightarrow> harness \<Rightarrow> harness \<times> err option" where
  "Add w aa app s =
     (case outcome w Ev_Add of
        Some e \<Rightarrow> (record_event Ev_Add s, Some e)
      | None \<Rightarrow> (record_event Ev_Add (s\<lparr>apps := apps s @ [app]\<rparr>), None))"

text \<open>
  Modelled from the spec: \<open>AddSignatureInfo\<close> and \<open>AddExportConfig\<close> of package
  export/database are not part of the sources at hand. A call that returns no error
  has inserted exactly the given record as the newest row of the database, and one
  that returns an error has inserted nothing.
\<close>

definition AddSignatureInfo :: "world \<Rightarrow> DB \<Rightarrow> SignatureInfo \<Rightarrow> harness \<Rightarrow> harness \<times> err option" where
  "AddSignatureInfo w db si s =
     (case outcome w Ev_AddSignatureInfo of
        Some e \<Rightarrow> (record_event Ev_AddSignatureInfo s, Some e)
      | None \<Rightarrow>
          (record_event Ev_AddSignatureInfo (s\<lparr>db_rows := db_rows s @ [SignatureInfoRow si]\<rparr>),
           None))"

definition AddExportConfig :: "world \<Rightarrow> DB \<Rightarrow> ExportConfig \<Rightarrow> harness \<Rightarrow> harness \<times> err option" where
  "AddExportConfig w db ec s =
     (case outcome w Ev_AddExportConfig of
        Some e \<Rightarrow> (record_event Ev_AddExportConfig s, Some e)
      | None \<Rightarrow>
          (record_event Ev_AddExportConfig (s\<lparr>db_rows := db_rows s @ [ExportConfigRow ec]\<rparr>),
           None))"

text \<open>\<open>time.Now()\<close>: each call is one more reading of the clock.\<close>

definition time_Now :: "world \<Rightarrow> harness \<Rightarrow> instant \<times> harness" where
  "time_Now w s =
     (now w (clock_reads s), record_event Ev_TimeNow (s\<lparr>clock_reads := Suc (clock_reads s)\<rparr>))"

text \<open>
  What the cleanups do when the test ends. \<open>tb.Cleanup\<close> functions run last
  registered, first run.
\<close>

fun run_cleanup :: "cleanup_fn \<Rightarrow> harness \<Rightarrow> harness" where
  "run_cleanup Stop s = s\<lparr>cancelled := True\<rparr>"
| "run_cleanup HelperCloseDatabase s = s\<lparr>db_status := Closed\<rparr>"

definition teardown :: "harness \<Rightarrow> harness" where
  "teardown s = fold run_cleanup (rev (cleanups s)) s"


subsection \<open>The functions of integration.go\<close>

text \<open>\<open>testClient\<close> (lines 206-216).\<close>

definition testClient :: "Server \<Rightarrow> Client" where
  "testClient srv =
     \<lparr>Timeout = 5 * Second, Transport = \<lparr>addr = Addr srv, rt = DefaultTransport\<rparr>\<rparr>"

text \<open>
  \<open>testServer\<close> (lines 60-187). The mux is a local value; the \<open>go\<close> statement hands it
  to the serving loop, which the state remembers in \<open>serving\<close>.
\<close>

definition testServer :: "world \<Rightarrow> harness \<Rightarrow> harness + (harness \<times> ServerEnv \<times> Client)" where
  "testServer w s0 =
     orFatal (NewMemoryProvider w s0) (\<lambda>s aa.
     orFatal (construct w Ev_NewMemory MemoryBlobstore s) (\<lambda>s bs.
     (case NewTestDatabase s of (s, db) \<Rightarrow>
     orFatal (construct w Ev_KeysNewNoop NoopKeyManager s) (\<lambda>s km.
     orFatal (construct w Ev_SecretsNewNoop NoopSecretManager s) (\<lambda>s sm.
     let env = serverenv_New
                 [WithAuthorizedAppProvider aa, WithBlobStorage bs, WithDatabase db,
                  WithKeyManager km, WithSecretManager sm];
         s = record_event Ev_ServerenvNew s;
         mux = [];
         cleanupExportConfig = \<lparr>cleanup_Timeout = 10 * Minute, cleanup_TTL = 336 * Hour\<rparr>
     in
     orFatal (construct w Ev_NewExportHandler (CleanupExportHandler cleanupExportConfig env) s)
       (\<lambda>s cleanupExportHandler.
     let mux = Handle ''/cleanup-export'' cleanupExportHandler mux;
         s = record_event (Ev_Handle ''/cleanup-export'') s;
         cleanupExposureConfig = \<lparr>cleanup_Timeout = 10 * Minute, cleanup_TTL = 336 * Hour\<rparr>
     in
     orFatal (construct w Ev_NewExposureHandler (CleanupExposureHandler cleanupExposureConfig env) s)
       (\<lambda>s cleanupExposureHandler.
     let mux = Handle ''/cleanup-exposure'' cleanupExposureHandler mux;
         s = record_event (Ev_Handle ''/cleanup-exposure'') s;
         exportConfig =
           \<lparr>CreateTimeout = 10 * Second, WorkerTimeout = 10 * Second, MinRecords = 1,
            PaddingRange = 1, MaxRecords = 10000, export_TruncateWindow = 1 * Second,
            MinWindowAge = 1 * Second, export_TTL = 336 * Hour\<rparr>
     in
     orFatal (construct w Ev_ExportNewServer (ExportServer exportConfig env) s)
       (\<lambda>s exportServer.
     let mux = Handle ''/export/'' (StripPrefix ''/export'' (Routes exportServer)) mux;
         s = record_event (Ev_Handle ''/export/'') s;
         federationInConfig =
           \<lparr>federationin_Timeout = 10 * Minute, federationin_TruncateWindow = 1 * Hour\<rparr>;
         s = record_event Ev_FederationinNewHandler s;
         mux = Handle ''/federation-in'' (FederationInHandler env federationInConfig) mux;
         s = record_event (Ev_Handle ''/federation-in'') s;
         publishConfig =
           \<lparr>MaxKeysOnPublish = 15, MaxSameStartIntervalKeys = 2, MaxIntervalAge = 360 * Hour,
            CreatedAtTruncateWindow = 1 * Second, ReleaseSameDayKeys = True\<rparr>
     in
     orFatal (construct w Ev_PublishNewHandler (PublishHandler publishConfig env) s)
       (\<lambda>s publishHandler.
     let mux = Handle ''/publish'' publishHandler mux;
         s = record_event (Ev_Handle ''/publish'') s
     in
     orFatal (construct w Ev_ServerNew (Server (bound_addr w)) s) (\<lambda>s srv.
     let s = record_event Ev_WithCancel s;
         s = record_event Ev_TbCleanup (tb_Cleanup Stop s);
         s = record_event Ev_Go (s\<lparr>serving := Some mux\<rparr>);
         client = testClient srv;
         s = record_event Ev_TestClient s
     in Inr (s, env, client)))))))))))"

text \<open>
  The body of the goroutine (lines 177-181), given what \<open>ServeHTTPHandler\<close> returned.
\<close>

definition serve_goroutine :: "err option \<Rightarrow> harness \<Rightarrow> harness" where
  "serve_goroutine returned s = (case returned of Some e \<Rightarrow> tb_Error e s | None \<Rightarrow> s)"

text \<open>
  \<open>startAuthorizedApp\<close> (lines 218-234). Calling \<open>Add\<close> on an environment that has no
  provider bound is a nil dereference.
\<close>

definition startAuthorizedApp :: "world \<Rightarrow> ServerEnv \<Rightarrow> harness \<Rightarrow> harness + harness" where
  "startAuthorizedApp w env s =
     (case authorizedAppProvider env of
        None \<Rightarrow> Inl (go_panic ''nil pointer dereference'' s)
      | Some aa \<Rightarrow>
          (case Add w aa
                  \<lparr>AppPackageName = ''com.example.app'',
                   AllowedRegions = {''TEST''},
                   AllowedHealthAuthorityIDs = {12345},
                   BypassHealthAuthorityVerification = True\<rparr> s of
             (s, Some e) \<Rightarrow> Inl (tb_Fatal e s)
           | (s, None) \<Rightarrow> Inr s))"

text \<open>
  \<open>createSignatureInfo\<close> (lines 236-258). The clock is read once for \<open>From\<close> and once
  more for \<open>Thru\<close>.
\<close>

definition createSignatureInfo :: "world \<Rightarrow> DB option \<Rightarrow> duration \<Rightarrow> harness \<Rightarrow> harness + harness" where
  "createSignatureInfo w db exportPeriod s =
     (case db of
        None \<Rightarrow> Inl (go_panic ''nil pointer dereference'' s)
      | Some d \<Rightarrow>
          let si = \<lparr>SigningKey = ''signer'', SigningKeyVersion = ''v1'', SigningKeyID = ''US''\<rparr> in
          (case AddSignatureInfo w d si s of
             (s, Some e) \<Rightarrow> Inl (tb_Fatal e s)
           | (s, None) \<Rightarrow>
               (case time_Now w s of (t1, s) \<Rightarrow>
                case time_Now w s of (t2, s) \<Rightarrow>
                let ec = \<lparr>BucketName = exportDir,
                          Period = exportPeriod,
                          OutputRegion = ''TEST'',
                          From = time_Add t1 (- 2 * Second),
                          Thru = time_Add t2 (1 * Hour),
                          SignatureInfoIDs = Some []\<rparr> in
                (case AddExportConfig w d ec s of
                   (s, Some e) \<Rightarrow> Inl (tb_Fatal e s)
                 | (s, None) \<Rightarrow> Inr s))))"

text \<open>\<open>NewTestServer\<close> (lines 45-57).\<close>

definition NewTestServer ::
  "world \<Rightarrow> duration \<Rightarrow> harness \<Rightarrow> harness + (harness \<times> ServerEnv \<times> EnServerClient \<times> DB option)" where
  "NewTestServer w exportPeriod s0 =
     (case testServer w s0 of
        Inl s \<Rightarrow> Inl s
      | Inr (s, env, httpClient) \<Rightarrow>
          let db = database env;
              enClient = \<lparr>client = httpClient\<rparr>;
              s = record_event Ev_EnServerClient s
          in (case startAuthorizedApp w env s of
                Inl s \<Rightarrow> Inl s
              | Inr s \<Rightarrow>
                  (case createSignatureInfo w db exportPeriod s of
                     Inl s \<Rightarrow> Inl s
                   | Inr s \<Rightarrow> Inr (s, env, enClient, db))))"


subsection \<open>Reading a run\<close>

text \<open>
  A run of a setup function ends either stopped by \<open>tb.Fatal\<close> (or a panic) or with
  its results; in both cases it leaves a state behind.
\<close>

definition aborted :: "harness + harness \<times> 'a \<Rightarrow> bool" where
  "aborted r = isl r"

definition state_of :: "harness + harness \<times> 'a \<Rightarrow> harness" where
  "state_of r = (case r of Inl s \<Rightarrow> s | Inr (s, x) \<Rightarrow> s)"

text \<open>
  The calls whose error return \<open>NewTestServer\<close> and the functions it calls check, in
  the order in which they are made, and the first of them that fails in a given world.
\<close>

definition fallible :: "event list" where
  "fallible =
     [Ev_NewMemoryProvider, Ev_NewMemory, Ev_KeysNewNoop, Ev_SecretsNewNoop,
      Ev_NewExportHandler, Ev_NewExposureHandler, Ev_ExportNewServer, Ev_PublishNewHandler,
      Ev_ServerNew, Ev_Add, Ev_AddSignatureInfo, Ev_AddExportConfig]"

definition first_failure :: "world \<Rightarrow> event option" where
  "first_failure w = find (\<lambda>ev. outcome w ev \<noteq> None) fallible"

text \<open>Every call of a setup in which nothing fails, in program order.\<close>

definition setup_trace :: "event list" where
  "setup_trace =
     [Ev_NewMemoryProvider, Ev_NewMemory, Ev_NewTestDatabase, Ev_KeysNewNoop,
      Ev_SecretsNewNoop, Ev_ServerenvNew, Ev_NewExportHandler,
      Ev_Handle ''/cleanup-export'', Ev_NewExposureHandler,
      Ev_Handle ''/cleanup-exposure'', Ev_ExportNewServer, Ev_Handle ''/export/'',
      Ev_FederationinNewHandler, Ev_Handle ''/federation-in'', Ev_PublishNewHandler,
      Ev_Handle ''/publish'', Ev_ServerNew, Ev_WithCancel, Ev_TbCleanup, Ev_Go,
      Ev_TestClient, Ev_EnServerClient, Ev_Add, Ev_AddSignatureInfo, Ev_TimeNow,
      Ev_TimeNow, Ev_AddExportConfig]"

text \<open>
  \<open>precedes a b xs\<close>: \<open>b\<close> occurs in \<open>xs\<close> after the first \<open>a\<close> and nowhere before it.
\<close>

definition precedes :: "'a \<Rightarrow> 'a \<Rightarrow> 'a list \<Rightarrow> bool" where
  "precedes a b xs =
     (b \<in> set (tl (dropWhile (\<lambda>x. x \<noteq> a) xs)) \<and> b \<notin> set (takeWhile (\<lambda>x. x \<noteq> a) xs))"

text \<open>The two tables of the database, read off its rows.\<close>

fun signature_infos :: "db_row list \<Rightarrow> SignatureInfo list" where
  "signature_infos [] = []"
| "signature_infos (SignatureInfoRow si # rows) = si # signature_infos rows"
| "signature_infos (ExportConfigRow ec # rows) = signature_infos rows"

fun export_configs :: "db_row list \<Rightarrow> ExportConfig list" where
  "export_configs [] = []"
| "export_configs (SignatureInfoRow si # rows) = export_configs rows"
| "export_configs (ExportConfigRow ec # rows) = ec # export_configs rows"

text \<open>
  The environment that lines 87-93 assemble and the mux that lines 97-165 fill, as
  values.
\<close>

definition harness_env :: ServerEnv where
  "harness_env =
     \<lparr>authorizedAppProvider = Some MemoryProvider, blobstore = Some MemoryBlobstore,
      database = Some TestDatabase, keyManager = Some NoopKeyManager,
      secretManager = Some NoopSecretManager\<rparr>"

definition harness_mux :: ServeMux where
  "harness_mux =
     [(''/cleanup-export'',
       CleanupExportHandler
         \<lparr>cleanup_Timeout = 10 * Minute, cleanup_TTL = 336 * Hour\<rparr> harness_env),
      (''/cleanup-exposure'',
       CleanupExposureHandler
         \<lparr>cleanup_Timeout = 10 * Minute, cleanup_TTL = 336 * Hour\<rparr> harness_env),
      (''/export/'',
       StripPrefix ''/export''
         (Routes (ExportServer
            \<lparr>CreateTimeout = 10 * Second, WorkerTimeout = 10 * Second, MinRecords = 1,
             PaddingRange = 1, MaxRecords = 10000, export_TruncateWindow = 1 * Second,
             MinWindowAge = 1 * Second, export_TTL = 336 * Hour\<rparr> harness_env))),
      (''/federation-in'',
       FederationInHandler harness_env
         \<lparr>federationin_Timeout = 10 * Minute, federationin_TruncateWindow = 1 * Hour\<rparr>),
      (''/publish'',
       PublishHandler
         \<lparr>MaxKeysOnPublish = 15, MaxSameStartIntervalKeys = 2, MaxIntervalAge = 360 * Hour,
          CreatedAtTruncateWindow = 1 * Second, ReleaseSameDayKeys = True\<rparr> harness_env)]"

subsection \<open>Concrete inputs\<close>

text \<open>
  A world in which no call fails and the clock advances by one nanosecond from one
  reading to the next; one in which no call fails and the clock shows the same instant
  at every reading; a world with failing calls; a state with the database open; a
  state that still holds what an earlier harness left behind.
\<close>

definition ticking :: world where
  "ticking = \<lparr>outcome = (\<lambda>ev. None), now = (\<lambda>n. int n), bound_addr = ''127.0.0.1:8080''\<rparr>"

definition steady :: world where
  "steady =
     \<lparr>outcome = (\<lambda>ev. None), now = (\<lambda>n. 1600000000000000000),
      bound_addr = ''127.0.0.1:8080''\<rparr>"

definition failing_export_server :: world where
  "failing_export_server =
     \<lparr>outcome = (\<lambda>ev. if ev = Ev_ExportNewServer \<or> ev = Ev_ServerNew
                        then Some ''no blobstore'' else None),
      now = (\<lambda>n. int n), bound_addr = ''127.0.0.1:8080''\<rparr>"

definition opened :: harness where
  "opened = fresh\<lparr>db_status := Opened\<rparr>"

definition reused :: harness where
  "reused =
     fresh\<lparr>apps := [\<lparr>AppPackageName = ''org.other.app'', AllowedRegions = {},
                      AllowedHealthAuthorityIDs = {},
                      BypassHealthAuthorityVerification = False\<rparr>],
           db_status := Closed,
           db_rows := [SignatureInfoRow \<lparr>SigningKey = ''old'', SigningKeyVersion = ''v0'',
                                        SigningKeyID = ''CA''\<rparr>],
           cancelled := True\<rparr>"


definition shim :: prefixRoundTripper where
  "shim = \<lparr>addr = ''127.0.0.1:8080'', rt = DefaultTransport\<rparr>"

text \<open>A stand-in for the wrapped transport that answers with the URL it was asked to fetch.\<close>

definition echo :: "RoundTripper \<Rightarrow> url_store \<Rightarrow> Request \<Rightarrow> URL option" where
  "echo t h r = (case URL r of None \<Rightarrow> None | Some u \<Rightarrow> h u)"

definition relative_request :: Request where
  "relative_request = \<lparr>Method = ''POST'', URL = Some 0\<rparr>"

definition relative_store :: url_store where
  "relative_store =
     [0 \<mapsto> \<lparr>Scheme = [], Opaque = [], Host = [], Path = ''/publish'', RawQuery = [],
            Fragment = []\<rparr>]"

definition https_request :: Request where
  "https_request = \<lparr>Method = ''GET'', URL = Some 7\<rparr>"

definition https_store :: url_store where
  "https_store =
     [7 \<mapsto> \<lparr>Scheme = ''https'', Opaque = [], Host = [], Path = ''/export/index.txt'',
            RawQuery = [], Fragment = []\<rparr>]"

section \<open>Properties\<close>

subsection \<open>The transport shim\<close>

lemma RoundTrip_store:
  assumes "URL r = Some u" and "h u = Some v"
  shows "RoundTrip send p h r = Inr (h(u \<mapsto> rewritten p v), send (rt p) (h(u \<mapsto> rewritten p v)) r)"
proof -
  have same: "h(u \<mapsto> v) = h" using assms(2) by (rule map_upd_triv)
  show ?thesis
    using assms same by (cases "Scheme v = []"; cases "Host v = []")
      (simp_all add: RoundTrip_def rewritten_def Let_def)
qed

text \<open>
  C3. For a request that carries a URL, the shim leaves the scheme \<open>http\<close> exactly when
  the request had none and keeps the given scheme otherwise; it leaves its own address
  as host exactly when the request had none and keeps the given host otherwise; no
  other field of the URL changes, and the request reaches the wrapped transport with
  nothing else touched. A request with both scheme and host is handed on as it came:
  the URL and the whole store are the same as before. The shim that \<open>testClient\<close>
  installs has the listener's address as its own and wraps the default transport.
\<close>

theorem RoundTrip_defaults:
  assumes "URL r = Some u" and "h u = Some v"
  shows "\<exists>v'. RoundTrip send p h r = Inr (h(u \<mapsto> v'), send (rt p) (h(u \<mapsto> v')) r)
           \<and> Scheme v' = (if Scheme v = [] then ''http'' else Scheme v)
           \<and> Host v' = (if Host v = [] then addr p else Host v)
           \<and> Opaque v' = Opaque v \<and> Path v' = Path v
           \<and> RawQuery v' = RawQuery v \<and> Fragment v' = Fragment v
           \<and> (Scheme v \<noteq> [] \<and> Host v \<noteq> [] \<longrightarrow> v' = v \<and> h(u \<mapsto> v') = h)
           \<and> addr (Transport (testClient srv)) = Addr srv
           \<and> rt (Transport (testClient srv)) = DefaultTransport"
proof (intro exI conjI)
  show "RoundTrip send p h r
          = Inr (h(u \<mapsto> rewritten p v), send (rt p) (h(u \<mapsto> rewritten p v)) r)"
    using assms by (rule RoundTrip_store)
  show "Scheme v \<noteq> [] \<and> Host v \<noteq> [] \<longrightarrow> rewritten p v = v \<and> h(u \<mapsto> rewritten p v) = h"
    using assms(2) by (auto simp: rewritten_def map_upd_triv)
qed (simp_all add: rewritten_def testClient_def)

theorem RoundTrip_defaults_witness:
  "URL relative_request = Some 0
   \<and> relative_store 0 = Some \<lparr>Scheme = [], Opaque = [], Host = [], Path = ''/publish'',
                               RawQuery = [], Fragment = []\<rparr>
   \<and> (\<exists>v'. RoundTrip echo shim relative_store relative_request
               = Inr (relative_store(0 \<mapsto> v'), Some v')
            \<and> Scheme v' = ''http'' \<and> Host v' = ''127.0.0.1:8080'' \<and> Path v' = ''/publish'')"
proof -
  have a: "URL relative_request = Some 0" by (simp add: relative_request_def)
  have b: "relative_store 0 = Some \<lparr>Scheme = [], Opaque = [], Host = [], Path = ''/publish'',
                                     RawQuery = [], Fragment = []\<rparr>"
    by (simp add: relative_store_def)
  from RoundTrip_defaults [where h = relative_store and send = echo and p = shim, OF a b]
  obtain v' where
    "RoundTrip echo shim relative_store relative_request
       = Inr (relative_store(0 \<mapsto> v'),
              echo (rt shim) (relative_store(0 \<mapsto> v')) relative_request)"
    "Scheme v' = ''http''" "Host v' = addr shim" "Path v' = ''/publish''"
    by auto
  then show ?thesis using a b by (auto simp: echo_def shim_def relative_request_def)
qed

text \<open>
  C10. The two defaults do not depend on each other: what becomes of the scheme is
  decided by the scheme alone and what becomes of the host by the host alone, so a
  request with a scheme such as \<open>https\<close> and no host keeps its scheme and gets the
  listener's address, and a request with a host and no scheme gets \<open>http\<close> and keeps its
  host. The rewrite happens in place: the store holds the rewritten URL at the very
  address the caller's request points to, every other address is untouched, and the
  wrapped transport receives the caller's own request.
\<close>

theorem RoundTrip_independent_in_place:
  assumes "URL r = Some u" and "h u = Some v"
  shows "\<exists>h' v'. RoundTrip send p h r = Inr (h', send (rt p) h' r)
           \<and> h' u = Some v' \<and> (\<forall>a. a \<noteq> u \<longrightarrow> h' a = h a)
           \<and> (Scheme v \<noteq> [] \<longrightarrow> Scheme v' = Scheme v)
           \<and> (Scheme v = [] \<longrightarrow> Scheme v' = ''http'')
           \<and> (Host v \<noteq> [] \<longrightarrow> Host v' = Host v)
           \<and> (Host v = [] \<longrightarrow> Host v' = addr p)"
proof (intro exI conjI)
  show "RoundTrip send p h r
          = Inr (h(u \<mapsto> rewritten p v), send (rt p) (h(u \<mapsto> rewritten p v)) r)"
    using assms by (rule RoundTrip_store)
  show "(h(u \<mapsto> rewritten p v)) u = Some (rewritten p v)" by simp
qed (simp_all add: rewritten_def)

theorem RoundTrip_independent_in_place_witness:
  "URL https_request = Some 7
   \<and> https_store 7 = Some \<lparr>Scheme = ''https'', Opaque = [], Host = [],
                            Path = ''/export/index.txt'', RawQuery = [], Fragment = []\<rparr>
   \<and> (\<exists>h' v'. RoundTrip echo shim https_store https_request = Inr (h', Some v')
            \<and> h' 7 = Some v' \<and> Scheme v' = ''https'' \<and> Host v' = ''127.0.0.1:8080''
            \<and> echo DefaultTransport h' \<lparr>Method = ''HEAD'', URL = Some 7\<rparr> = Some v')"
proof -
  have a: "URL https_request = Some 7" by (simp add: https_request_def)
  have b: "https_store 7 = Some \<lparr>Scheme = ''https'', Opaque = [], Host = [],
                                  Path = ''/export/index.txt'', RawQuery = [], Fragment = []\<rparr>"
    by (simp add: https_store_def)
  from RoundTrip_independent_in_place [where h = https_store and send = echo and p = shim, OF a b]
  obtain h' v' where
    "RoundTrip echo shim https_store https_request = Inr (h', echo (rt shim) h' https_request)"
    "h' 7 = Some v'" "Scheme v' = ''https''" "Host v' = addr shim"
    by auto
  then show ?thesis using a b by (auto simp: echo_def shim_def https_request_def)
qed


subsection \<open>Each function on the path where nothing fails\<close>

lemma orFatal_construct:
  "orFatal (construct w ev x s) k =
     (case outcome w ev of
        Some e \<Rightarrow> Inl (tb_Fatal e (record_event ev s))
      | None \<Rightarrow> k (record_event ev s) x)"
  by (simp add: construct_def split: option.splits)

lemma orFatal_NewMemoryProvider:
  "orFatal (NewMemoryProvider w s) k =
     (case outcome w Ev_NewMemoryProvider of
        Some e \<Rightarrow> Inl (tb_Fatal e (record_event Ev_NewMemoryProvider s))
      | None \<Rightarrow> k (record_event Ev_NewMemoryProvider (s\<lparr>apps := []\<rparr>)) MemoryProvider)"
  by (simp add: NewMemoryProvider_def split: option.splits)

lemma serverenv_New_all:
  "serverenv_New [WithAuthorizedAppProvider MemoryProvider, WithBlobStorage MemoryBlobstore,
                  WithDatabase TestDatabase, WithKeyManager NoopKeyManager,
                  WithSecretManager NoopSecretManager] = harness_env"
  by (simp add: serverenv_New_def WithAuthorizedAppProvider_def WithBlobStorage_def
      WithDatabase_def WithKeyManager_def WithSecretManager_def harness_env_def)

lemma harness_env_database: "database harness_env = Some TestDatabase"
  by (simp add: harness_env_def)

lemmas testServer_unfold = testServer_def orFatal_construct orFatal_NewMemoryProvider
  NewTestDatabase_def record_event_def tb_Fatal_def tb_Cleanup_def Let_def

lemma testServer_returns:
  assumes "outcome w Ev_NewMemoryProvider = None" "outcome w Ev_NewMemory = None"
    "outcome w Ev_KeysNewNoop = None" "outcome w Ev_SecretsNewNoop = None"
    "outcome w Ev_NewExportHandler = None" "outcome w Ev_NewExposureHandler = None"
    "outcome w Ev_ExportNewServer = None" "outcome w Ev_PublishNewHandler = None"
    "outcome w Ev_ServerNew = None"
  shows "testServer w s0 =
     Inr (s0\<lparr>events := events s0 @ take 21 setup_trace, apps := [], db_status := Opened,
             db_rows := [], cleanups := cleanups s0 @ [HelperCloseDatabase, Stop],
             serving := Some harness_mux\<rparr>,
          harness_env, testClient (Server (bound_addr w)))"
  using assms
  by (simp add: testServer_unfold serverenv_New_all setup_trace_def harness_mux_def Handle_def)

lemma startAuthorizedApp_returns:
  assumes "outcome w Ev_Add = None"
  shows "startAuthorizedApp w harness_env s =
     Inr (s\<lparr>events := events s @ [Ev_Add],
            apps := apps s @
              [\<lparr>AppPackageName = ''com.example.app'', AllowedRegions = {''TEST''},
                AllowedHealthAuthorityIDs = {12345},
                BypassHealthAuthorityVerification = True\<rparr>]\<rparr>)"
  using assms by (simp add: startAuthorizedApp_def harness_env_def Add_def record_event_def)

lemma createSignatureInfo_returns:
  assumes "outcome w Ev_AddSignatureInfo = None" "outcome w Ev_AddExportConfig = None"
  shows "createSignatureInfo w (Some d) P s =
     Inr (s\<lparr>events := events s @
              [Ev_AddSignatureInfo, Ev_TimeNow, Ev_TimeNow, Ev_AddExportConfig],
            db_rows := db_rows s @
              [SignatureInfoRow \<lparr>SigningKey = ''signer'', SigningKeyVersion = ''v1'',
                                 SigningKeyID = ''US''\<rparr>,
               ExportConfigRow \<lparr>BucketName = ''my-bucket'', Period = P, OutputRegion = ''TEST'',
                                From = now w (clock_reads s) - 2000000000,
                                Thru = now w (Suc (clock_reads s)) + 3600000000000,
                                SignatureInfoIDs = Some []\<rparr>],
            clock_reads := Suc (Suc (clock_reads s))\<rparr>)"
  using assms
  by (simp add: createSignatureInfo_def AddSignatureInfo_def AddExportConfig_def time_Now_def
      record_event_def time_Add_def Second_def Minute_def Hour_def exportDir_def Let_def)

subsection \<open>The first failing call decides the run\<close>

lemma first_failure_cases:
  assumes "first_failure w = Some ev"
  obtains
    (NewMemoryProvider) e where
      "ev = Ev_NewMemoryProvider" "outcome w Ev_NewMemoryProvider = Some e"
  | (NewMemory) e where
      "ev = Ev_NewMemory" "outcome w Ev_NewMemoryProvider = None"
      "outcome w Ev_NewMemory = Some e"
  | (KeysNewNoop) e where
      "ev = Ev_KeysNewNoop" "outcome w Ev_NewMemoryProvider = None"
      "outcome w Ev_NewMemory = None" "outcome w Ev_KeysNewNoop = Some e"
  | (SecretsNewNoop) e where
      "ev = Ev_SecretsNewNoop" "outcome w Ev_NewMemoryProvider = None"
      "outcome w Ev_NewMemory = None" "outcome w Ev_KeysNewNoop = None"
      "outcome w Ev_SecretsNewNoop = Some e"
  | (NewExportHandler) e where
      "ev = Ev_NewExportHandler" "outcome w Ev_NewMemoryProvider = None"
      "outcome w Ev_NewMemory = None" "outcome w Ev_KeysNewNoop = None"
      "outcome w Ev_SecretsNewNoop = None" "outcome w Ev_NewExportHandler = Some e"
  | (NewExposureHandler) e where
      "ev = Ev_NewExposureHandler" "outcome w Ev_NewMemoryProvider = None"
      "outcome w Ev_NewMemory = None" "outcome w Ev_KeysNewNoop = None"
      "outcome w Ev_SecretsNewNoop = None" "outcome w Ev_NewExportHandler = None"
      "outcome w Ev_NewExposureHandler = Some e"
  | (ExportNewServer) e where
      "ev = Ev_ExportNewServer" "outcome w Ev_NewMemoryProvider = None"
      "outcome w Ev_NewMemory = None" "outcome w Ev_KeysNewNoop = None"
      "outcome w Ev_SecretsNewNoop = None" "outcome w Ev_NewExportHandler = None"
      "outcome w Ev_NewExposureHandler = None" "outcome w Ev_ExportNewServer = Some e"
  | (PublishNewHandler) e where
      "ev = Ev_PublishNewHandler" "outcome w Ev_NewMemoryProvider = None"
      "outcome w Ev_NewMemory = None" "outcome w Ev_KeysNewNoop = None"
      "outcome w Ev_SecretsNewNoop = None" "outcome w Ev_NewExportHandler = None"
      "outcome w Ev_NewExposureHandler = None" "outcome w Ev_ExportNewServer = None"
      "outcome w Ev_PublishNewHandler = Some e"
  | (ServerNew) e where
      "ev = Ev_ServerNew" "outcome w Ev_NewMemoryProvider = None"
      "outcome w Ev_NewMemory = None" "outcome w Ev_KeysNewNoop = None"
      "outcome w Ev_SecretsNewNoop = None" "outcome w Ev_NewExportHandler = None"
      "outcome w Ev_NewExposureHandler = None" "outcome w Ev_ExportNewServer = None"
      "outcome w Ev_PublishNewHandler = None" "outcome w Ev_ServerNew = Some e"
  | (Add) e where
      "ev = Ev_Add" "outcome w Ev_NewMemoryProvider = None" "outcome w Ev_NewMemory = None"
      "outcome w Ev_KeysNewNoop = None" "outcome w Ev_SecretsNewNoop = None"
      "outcome w Ev_NewExportHandler = None" "outcome w Ev_NewExposureHandler = None"
      "outcome w Ev_ExportNewServer = None" "outcome w Ev_PublishNewHandler = None"
      "outcome w Ev_ServerNew = None" "outcome w Ev_Add = Some e"
  | (AddSignatureInfo) e where
      "ev = Ev_AddSignatureInfo" "outcome w Ev_NewMemoryProvider = None"
      "outcome w Ev_NewMemory = None" "outcome w Ev_KeysNewNoop = None"
      "outcome w Ev_SecretsNewNoop = None" "outcome w Ev_NewExportHandler = None"
      "outcome w Ev_NewExposureHandler = None" "outcome w Ev_ExportNewServer = None"
      "outcome w Ev_PublishNewHandler = None" "outcome w Ev_ServerNew = None"
      "outcome w Ev_Add = None" "outcome w Ev_AddSignatureInfo = Some e"
  | (AddExportConfig) e where
      "ev = Ev_AddExportConfig" "outcome w Ev_NewMemoryProvider = None"
      "outcome w Ev_NewMemory = None" "outcome w Ev_KeysNewNoop = None"
      "outcome w Ev_SecretsNewNoop = None" "outcome w Ev_NewExportHandler = None"
      "outcome w Ev_NewExposureHandler = None" "outcome w Ev_ExportNewServer = None"
      "outcome w Ev_PublishNewHandler = None" "outcome w Ev_ServerNew = None"
      "outcome w Ev_Add = None" "outcome w Ev_AddSignatureInfo = None"
      "outcome w Ev_AddExportConfig = Some e"
  using assms
  by (simp add: first_failure_def fallible_def split: if_splits)

lemma first_failure_None:
  assumes "first_failure w = None"
  shows
    "outcome w Ev_NewMemoryProvider = None" "outcome w Ev_NewMemory = None"
    "outcome w Ev_KeysNewNoop = None" "outcome w Ev_SecretsNewNoop = None"
    "outcome w Ev_NewExportHandler = None" "outcome w Ev_NewExposureHandler = None"
    "outcome w Ev_ExportNewServer = None" "outcome w Ev_PublishNewHandler = None"
    "outcome w Ev_ServerNew = None" "outcome w Ev_Add = None"
    "outcome w Ev_AddSignatureInfo = None" "outcome w Ev_AddExportConfig = None"
  using assms by (simp_all add: first_failure_def fallible_def split: if_splits)

lemma NewTestServer_returns:
  assumes "first_failure w = None"
  shows "NewTestServer w P s0 =
     Inr (s0\<lparr>events := events s0 @ setup_trace,
             apps := [\<lparr>AppPackageName = ''com.example.app'', AllowedRegions = {''TEST''},
                      AllowedHealthAuthorityIDs = {12345},
                      BypassHealthAuthorityVerification = True\<rparr>],
             db_status := Opened,
             db_rows :=
               [SignatureInfoRow \<lparr>SigningKey = ''signer'', SigningKeyVersion = ''v1'',
                                  SigningKeyID = ''US''\<rparr>,
                ExportConfigRow \<lparr>BucketName = ''my-bucket'', Period = P, OutputRegion = ''TEST'',
                                 From = now w (clock_reads s0) - 2000000000,
                                 Thru = now w (Suc (clock_reads s0)) + 3600000000000,
                                 SignatureInfoIDs = Some []\<rparr>],
             cleanups := cleanups s0 @ [HelperCloseDatabase, Stop],
             clock_reads := Suc (Suc (clock_reads s0)),
             serving := Some harness_mux\<rparr>,
          harness_env, \<lparr>client = testClient (Server (bound_addr w))\<rparr>, Some TestDatabase)"
  using first_failure_None [OF assms]
  by (simp add: NewTestServer_def testServer_returns startAuthorizedApp_returns
      createSignatureInfo_returns harness_env_database record_event_def setup_trace_def Let_def)

lemma NewTestServer_aborts:
  assumes "first_failure w = Some ev"
  shows "\<exists>s e. NewTestServer w P s0 = Inl s \<and> outcome w ev = Some e
           \<and> fatal_log s = fatal_log s0 @ [e] \<and> panic_log s = panic_log s0
           \<and> error_log s = error_log s0 \<and> cancelled s = cancelled s0
           \<and> events s = events s0 @ takeWhile (\<lambda>x. x \<noteq> ev) setup_trace @ [ev]
           \<and> (db_status s = db_status s0 \<or> db_status s = Opened)"
  using assms
proof (cases rule: first_failure_cases)
  case NewMemoryProvider
  then show ?thesis
    by (simp add: NewTestServer_def testServer_unfold setup_trace_def)
next
  case NewMemory
  then show ?thesis
    by (simp add: NewTestServer_def testServer_unfold setup_trace_def)
next
  case KeysNewNoop
  then show ?thesis
    by (simp add: NewTestServer_def testServer_unfold setup_trace_def)
next
  case SecretsNewNoop
  then show ?thesis
    by (simp add: NewTestServer_def testServer_unfold setup_trace_def)
next
  case NewExportHandler
  then show ?thesis
    by (simp add: NewTestServer_def testServer_unfold setup_trace_def)
next
  case NewExposureHandler
  then show ?thesis
    by (simp add: NewTestServer_def testServer_unfold setup_trace_def)
next
  case ExportNewServer
  then show ?thesis
    by (simp add: NewTestServer_def testServer_unfold setup_trace_def)
next
  case PublishNewHandler
  then show ?thesis
    by (simp add: NewTestServer_def testServer_unfold setup_trace_def)
next
  case ServerNew
  then show ?thesis
    by (simp add: NewTestServer_def testServer_unfold setup_trace_def)
next
  case Add
  then show ?thesis
    by (simp add: NewTestServer_def testServer_returns startAuthorizedApp_def harness_env_def
        Add_def record_event_def tb_Fatal_def setup_trace_def)
next
  case AddSignatureInfo
  then show ?thesis
    by (simp add: NewTestServer_def testServer_returns startAuthorizedApp_returns
        createSignatureInfo_def AddSignatureInfo_def AddExportConfig_def time_Now_def
        harness_env_database record_event_def tb_Fatal_def setup_trace_def Let_def)
next
  case AddExportConfig
  then show ?thesis
    by (simp add: NewTestServer_def testServer_returns startAuthorizedApp_returns
        createSignatureInfo_def AddSignatureInfo_def AddExportConfig_def time_Now_def
        harness_env_database record_event_def tb_Fatal_def setup_trace_def Let_def)
qed

lemma NewTestServer_Inr:
  assumes "NewTestServer w P s0 = Inr r"
  shows "first_failure w = None"
proof (cases "first_failure w")
  case None
  then show ?thesis .
next
  case (Some ev)
  from NewTestServer_aborts [OF Some, of P s0] assms show ?thesis by auto
qed

lemma NewTestServer_result:
  assumes "NewTestServer w P s0 = Inr (s, env, cl, db)"
  shows "events s = events s0 @ setup_trace"
    and "apps s = [\<lparr>AppPackageName = ''com.example.app'', AllowedRegions = {''TEST''},
                    AllowedHealthAuthorityIDs = {12345},
                    BypassHealthAuthorityVerification = True\<rparr>]"
    and "db_rows s =
           [SignatureInfoRow \<lparr>SigningKey = ''signer'', SigningKeyVersion = ''v1'',
                              SigningKeyID = ''US''\<rparr>,
            ExportConfigRow \<lparr>BucketName = ''my-bucket'', Period = P, OutputRegion = ''TEST'',
                             From = now w (clock_reads s0) - 2000000000,
                             Thru = now w (Suc (clock_reads s0)) + 3600000000000,
                             SignatureInfoIDs = Some []\<rparr>]"
    and "serving s = Some harness_mux"
    and "env = harness_env"
    and "db = Some TestDatabase"
proof -
  have "first_failure w = None" using assms by (rule NewTestServer_Inr)
  from NewTestServer_returns [OF this, of P s0] assms
  show "events s = events s0 @ setup_trace"
    and "apps s = [\<lparr>AppPackageName = ''com.example.app'', AllowedRegions = {''TEST''},
                    AllowedHealthAuthorityIDs = {12345},
                    BypassHealthAuthorityVerification = True\<rparr>]"
    and "db_rows s =
           [SignatureInfoRow \<lparr>SigningKey = ''signer'', SigningKeyVersion = ''v1'',
                              SigningKeyID = ''US''\<rparr>,
            ExportConfigRow \<lparr>BucketName = ''my-bucket'', Period = P, OutputRegion = ''TEST'',
                             From = now w (clock_reads s0) - 2000000000,
                             Thru = now w (Suc (clock_reads s0)) + 3600000000000,
                             SignatureInfoIDs = Some []\<rparr>]"
    and "serving s = Some harness_mux"
    and "env = harness_env"
    and "db = Some TestDatabase"
    by auto
qed

lemma first_failure_ticking: "first_failure ticking = None"
  by (simp add: first_failure_def fallible_def ticking_def)


subsection \<open>Fixture seeding\<close>

text \<open>
  C1. In every setup with export period \<open>P\<close> (in which neither write returns an error:
  a failing write stops the setup), \<open>createSignatureInfo\<close> performs exactly two writes,
  in this order: it inserts the signing-key descriptor \<open>signer/v1/US\<close>, then it inserts
  an export configuration with bucket \<open>my-bucket\<close>, region \<open>TEST\<close>, period \<open>P\<close>, the
  window \<open>[now - 2s, now + 1h]\<close> and a list of signing-key identifiers that is the empty
  slice: not nil and without the descriptor just created. Each bound of the window is
  taken from the clock as the source reads it for that bound (2000000000 ns before
  the first reading, 3600000000000 ns after the second); when the clock shows the same
  instant \<open>now\<close> at both readings the window is \<open>now - 2s\<close> to \<open>now + 1h\<close> for that one
  instant.
\<close>

theorem createSignatureInfo_two_writes:
  assumes "outcome w Ev_AddSignatureInfo = None" and "outcome w Ev_AddExportConfig = None"
  shows "\<exists>s' ec. createSignatureInfo w (Some d) P s = Inr s'
           \<and> events s' = events s @
               [Ev_AddSignatureInfo, Ev_TimeNow, Ev_TimeNow, Ev_AddExportConfig]
           \<and> db_rows s' = db_rows s @
               [SignatureInfoRow \<lparr>SigningKey = ''signer'', SigningKeyVersion = ''v1'',
                                  SigningKeyID = ''US''\<rparr>,
                ExportConfigRow ec]
           \<and> BucketName ec = ''my-bucket'' \<and> Period ec = P \<and> OutputRegion ec = ''TEST''
           \<and> SignatureInfoIDs ec = Some []
           \<and> From ec = now w (clock_reads s) - 2000000000
           \<and> Thru ec = now w (clock_reads s + 1) + 3600000000000
           \<and> (now w (clock_reads s + 1) = now w (clock_reads s) \<longrightarrow>
                 From ec = time_Add (now w (clock_reads s)) (- 2 * Second)
                 \<and> Thru ec = time_Add (now w (clock_reads s)) (1 * Hour))"
  by (simp add: createSignatureInfo_returns [OF assms] time_Add_def Second_def Minute_def
      Hour_def)

theorem createSignatureInfo_two_writes_witness:
  "outcome steady Ev_AddSignatureInfo = None \<and> outcome steady Ev_AddExportConfig = None
   \<and> now steady (clock_reads opened + 1) = now steady (clock_reads opened)
   \<and> (\<exists>s'. createSignatureInfo steady (Some TestDatabase) Hour opened = Inr s'
          \<and> events s' = [Ev_AddSignatureInfo, Ev_TimeNow, Ev_TimeNow, Ev_AddExportConfig]
          \<and> db_rows s' =
               [SignatureInfoRow \<lparr>SigningKey = ''signer'', SigningKeyVersion = ''v1'',
                                  SigningKeyID = ''US''\<rparr>,
                ExportConfigRow
                  \<lparr>BucketName = ''my-bucket'', Period = Hour, OutputRegion = ''TEST'',
                   From = time_Add 1600000000000000000 (- 2 * Second),
                   Thru = time_Add 1600000000000000000 (1 * Hour),
                   SignatureInfoIDs = Some []\<rparr>])"
proof -
  have a: "outcome steady Ev_AddSignatureInfo = None" by (simp add: steady_def)
  have b: "outcome steady Ev_AddExportConfig = None" by (simp add: steady_def)
  have c: "now steady (clock_reads opened + 1) = now steady (clock_reads opened)"
    by (simp add: steady_def)
  from createSignatureInfo_two_writes [OF a b, of TestDatabase Hour opened] c
  obtain s' ec where r: "createSignatureInfo steady (Some TestDatabase) Hour opened = Inr s'"
    and e: "events s' = events opened @
              [Ev_AddSignatureInfo, Ev_TimeNow, Ev_TimeNow, Ev_AddExportConfig]"
    and d: "db_rows s' = db_rows opened @
              [SignatureInfoRow \<lparr>SigningKey = ''signer'', SigningKeyVersion = ''v1'',
                                 SigningKeyID = ''US''\<rparr>,
               ExportConfigRow ec]"
    and f: "BucketName ec = ''my-bucket''" "Period ec = Hour" "OutputRegion ec = ''TEST''"
      "SignatureInfoIDs ec = Some []"
      "From ec = time_Add (now steady (clock_reads opened)) (- 2 * Second)"
      "Thru ec = time_Add (now steady (clock_reads opened)) (1 * Hour)"
    by blast
  have "ec = \<lparr>BucketName = ''my-bucket'', Period = Hour, OutputRegion = ''TEST'',
              From = time_Add 1600000000000000000 (- 2 * Second),
              Thru = time_Add 1600000000000000000 (1 * Hour),
              SignatureInfoIDs = Some []\<rparr>"
    using f by (cases ec) (simp add: steady_def)
  with r e d show ?thesis using a b c by (simp add: opened_def fresh_def)
qed

text \<open>
  C6, as the specification words it, at a concrete setup: with the database open and
  empty, seeding the authorized application returns, the application is in the
  in-memory registry, and the database still has no row.
\<close>

theorem startAuthorizedApp_counterexample:
  "startAuthorizedApp ticking harness_env opened
     = Inr (opened\<lparr>events := [Ev_Add],
                  apps := [\<lparr>AppPackageName = ''com.example.app'', AllowedRegions = {''TEST''},
                           AllowedHealthAuthorityIDs = {12345},
                           BypassHealthAuthorityVerification = True\<rparr>]\<rparr>)
   \<and> db_rows (opened\<lparr>events := [Ev_Add],
                  apps := [\<lparr>AppPackageName = ''com.example.app'', AllowedRegions = {''TEST''},
                           AllowedHealthAuthorityIDs = {12345},
                           BypassHealthAuthorityVerification = True\<rparr>]\<rparr>) = []"
  by (simp add: startAuthorizedApp_def harness_env_def Add_def record_event_def ticking_def
      opened_def fresh_def)

text \<open>
  C6, amended. \<open>startAuthorizedApp\<close> adds the baseline authorized application to the
  authorized-application provider of the environment (the in-memory registry that
  \<open>testServer\<close> created), not to the database, whose rows and status it leaves as they
  were. The record has application identifier \<open>com.example.app\<close>, allowed regions
  \<open>{TEST}\<close>, allowed authority ids \<open>{12345}\<close> and the verification bypass enabled.
\<close>

theorem startAuthorizedApp_seeds_provider:
  assumes "authorizedAppProvider env = Some aa" and "outcome w Ev_Add = None"
  shows "\<exists>s'. startAuthorizedApp w env s = Inr s'
           \<and> apps s' = apps s @
               [\<lparr>AppPackageName = ''com.example.app'', AllowedRegions = {''TEST''},
                 AllowedHealthAuthorityIDs = {12345},
                 BypassHealthAuthorityVerification = True\<rparr>]
           \<and> db_rows s' = db_rows s \<and> db_status s' = db_status s"
  using assms by (simp add: startAuthorizedApp_def Add_def record_event_def)

theorem startAuthorizedApp_seeds_provider_witness:
  "authorizedAppProvider harness_env = Some MemoryProvider \<and> outcome ticking Ev_Add = None
   \<and> (\<exists>s'. startAuthorizedApp ticking harness_env opened = Inr s'
          \<and> apps s' = [\<lparr>AppPackageName = ''com.example.app'', AllowedRegions = {''TEST''},
                        AllowedHealthAuthorityIDs = {12345},
                        BypassHealthAuthorityVerification = True\<rparr>]
          \<and> db_rows s' = [] \<and> db_status s' = Opened)"
proof -
  have a: "authorizedAppProvider harness_env = Some MemoryProvider"
    by (simp add: harness_env_def)
  have b: "outcome ticking Ev_Add = None" by (simp add: ticking_def)
  from startAuthorizedApp_seeds_provider [OF a b, of opened]
  show ?thesis using a b by (simp add: opened_def fresh_def)
qed

text \<open>
  C5. After every harness setup that returns, the stores created by that setup hold
  exactly one authorized application, one signing-key descriptor and one export
  configuration, whatever an earlier harness left in the state.
\<close>

theorem NewTestServer_one_of_each:
  assumes "NewTestServer w P s0 = Inr (s, env, cl, db)"
  shows "length (apps s) = 1 \<and> length (signature_infos (db_rows s)) = 1
         \<and> length (export_configs (db_rows s)) = 1 \<and> length (db_rows s) = 2"
  by (simp add: NewTestServer_result [OF assms])

theorem NewTestServer_one_of_each_witness:
  "\<exists>s env cl db. NewTestServer ticking Hour reused = Inr (s, env, cl, db)
      \<and> length (apps s) = 1 \<and> length (signature_infos (db_rows s)) = 1
      \<and> length (export_configs (db_rows s)) = 1 \<and> length (db_rows s) = 2"
proof -
  from NewTestServer_returns [OF first_failure_ticking, of Hour reused] obtain s env cl db
    where r: "NewTestServer ticking Hour reused = Inr (s, env, cl, db)" by blast
  from NewTestServer_one_of_each [OF r] show ?thesis using r by blast
qed


subsection \<open>Order of the setup\<close>

text \<open>
  C2, as the specification words it, at a concrete setup in which nothing fails: the
  last seeding write does not come before the \<open>go\<close> statement that starts the
  listener's serving loop; the listener is created and its loop is started before the
  first seeding call.
\<close>

theorem NewTestServer_order_counterexample:
  "\<not> aborted (NewTestServer ticking Hour fresh)
   \<and> \<not> precedes Ev_AddExportConfig Ev_Go (events (state_of (NewTestServer ticking Hour fresh)))
   \<and> precedes Ev_ServerNew Ev_Add (events (state_of (NewTestServer ticking Hour fresh)))
   \<and> precedes Ev_Go Ev_Add (events (state_of (NewTestServer ticking Hour fresh)))"
  by (simp add: NewTestServer_returns [OF first_failure_ticking] aborted_def state_of_def
      precedes_def setup_trace_def fresh_def)

text \<open>
  C2, amended. In every harness setup that returns, the listener is created and its
  serving loop started strictly before the construction of the HTTP client and of the
  client returned to the test; client construction strictly precedes fixture seeding
  (the authorized application, then the signing-key descriptor, then the export
  configuration); and the last seeding write is the last call of the setup, so
  seeding is complete when \<open>NewTestServer\<close> returns.
\<close>

theorem NewTestServer_order:
  assumes "NewTestServer w P s0 = Inr (s, env, cl, db)"
  shows "\<exists>tr. events s = events s0 @ tr
           \<and> precedes Ev_ServerNew Ev_Go tr
           \<and> precedes Ev_Go Ev_TestClient tr
           \<and> precedes Ev_TestClient Ev_EnServerClient tr
           \<and> precedes Ev_EnServerClient Ev_Add tr
           \<and> precedes Ev_Add Ev_AddSignatureInfo tr
           \<and> precedes Ev_AddSignatureInfo Ev_AddExportConfig tr
           \<and> last tr = Ev_AddExportConfig"
proof -
  have "events s = events s0 @ setup_trace"
    by (rule NewTestServer_result(1) [OF assms])
  moreover have "precedes Ev_ServerNew Ev_Go setup_trace"
    "precedes Ev_Go Ev_TestClient setup_trace"
    "precedes Ev_TestClient Ev_EnServerClient setup_trace"
    "precedes Ev_EnServerClient Ev_Add setup_trace"
    "precedes Ev_Add Ev_AddSignatureInfo setup_trace"
    "precedes Ev_AddSignatureInfo Ev_AddExportConfig setup_trace"
    "last setup_trace = Ev_AddExportConfig"
    by (simp_all add: precedes_def setup_trace_def)
  ultimately show ?thesis by blast
qed

theorem NewTestServer_order_witness:
  "\<exists>s env cl db tr. NewTestServer ticking Hour fresh = Inr (s, env, cl, db)
      \<and> events s = tr \<and> precedes Ev_Go Ev_TestClient tr \<and> precedes Ev_EnServerClient Ev_Add tr
      \<and> last tr = Ev_AddExportConfig"
proof -
  from NewTestServer_returns [OF first_failure_ticking, of Hour fresh] obtain s env cl db
    where r: "NewTestServer ticking Hour fresh = Inr (s, env, cl, db)" by blast
  from NewTestServer_order [OF r] show ?thesis using r by (auto simp: fresh_def)
qed

subsection \<open>The router\<close>

text \<open>
  C4. After every harness setup that returns, the mux handed to the serving loop has
  exactly five entries: \<open>/cleanup-export\<close>, \<open>/cleanup-exposure\<close>, \<open>/export/\<close>,
  \<open>/federation-in\<close> and \<open>/publish\<close>, each with a handler of its own built on the
  environment that is returned. \<open>/export/\<close> is the only subtree pattern and its handler
  is the only one wrapped in \<open>StripPrefix\<close>: it hands on what follows \<open>/export\<close>, while
  every other entry hands every path on as it came.
\<close>

theorem NewTestServer_router:
  assumes "NewTestServer w P s0 = Inr (s, env, cl, db)"
  shows "\<exists>m. serving s = Some m
           \<and> m = [(''/cleanup-export'',
                   CleanupExportHandler
                     \<lparr>cleanup_Timeout = 10 * Minute, cleanup_TTL = 336 * Hour\<rparr> env),
                  (''/cleanup-exposure'',
                   CleanupExposureHandler
                     \<lparr>cleanup_Timeout = 10 * Minute, cleanup_TTL = 336 * Hour\<rparr> env),
                  (''/export/'',
                   StripPrefix ''/export''
                     (Routes (ExportServer
                        \<lparr>CreateTimeout = 10 * Second, WorkerTimeout = 10 * Second,
                         MinRecords = 1, PaddingRange = 1, MaxRecords = 10000,
                         export_TruncateWindow = 1 * Second, MinWindowAge = 1 * Second,
                         export_TTL = 336 * Hour\<rparr> env))),
                  (''/federation-in'',
                   FederationInHandler env
                     \<lparr>federationin_Timeout = 10 * Minute,
                      federationin_TruncateWindow = 1 * Hour\<rparr>),
                  (''/publish'',
                   PublishHandler
                     \<lparr>MaxKeysOnPublish = 15, MaxSameStartIntervalKeys = 2,
                      MaxIntervalAge = 360 * Hour, CreatedAtTruncateWindow = 1 * Second,
                      ReleaseSameDayKeys = True\<rparr> env)]
           \<and> distinct (map fst m) \<and> distinct (map snd m)
           \<and> filter subtree_pattern (map fst m) = [''/export/'']
           \<and> map fst (filter (\<lambda>(pattern, h). strips h) m) = [''/export/'']
           \<and> (\<forall>(pattern, h) \<in> set m. \<not> strips h \<longrightarrow> delegate h path = Some (h, path))
           \<and> (\<forall>(pattern, h) \<in> set m. strips h \<longrightarrow>
                 (\<exists>h'. delegate h (''/export'' @ rest) = Some (h', rest) \<and> \<not> strips h'))"
proof -
  have s: "serving s = Some harness_mux" and e: "env = harness_env"
    by (simp_all add: NewTestServer_result [OF assms])
  show ?thesis
    by (simp add: s e harness_mux_def subtree_pattern_def)
qed

theorem NewTestServer_router_witness:
  "\<exists>s env cl db m. NewTestServer ticking Hour fresh = Inr (s, env, cl, db)
      \<and> serving s = Some m \<and> length m = 5
      \<and> map fst m = [''/cleanup-export'', ''/cleanup-exposure'', ''/export/'',
                      ''/federation-in'', ''/publish'']
      \<and> map fst (filter (\<lambda>(pattern, h). strips h) m) = [''/export/'']"
proof -
  from NewTestServer_returns [OF first_failure_ticking, of Hour fresh] obtain s env cl db
    where r: "NewTestServer ticking Hour fresh = Inr (s, env, cl, db)" by blast
  from NewTestServer_router [OF r, of "[]" "[]"] obtain m where
    m: "serving s = Some m" "length m = 5"
    "map fst m = [''/cleanup-export'', ''/cleanup-exposure'', ''/export/'',
                  ''/federation-in'', ''/publish'']"
    "map fst (filter (\<lambda>(pattern, h). strips h) m) = [''/export/'']"
    by auto
  show ?thesis
    by (rule exI [of _ s], rule exI [of _ env], rule exI [of _ cl], rule exI [of _ db],
        rule exI [of _ m]) (simp add: r m)
qed


subsection \<open>Failing fast\<close>

text \<open>
  C7. Whatever the surroundings do, a harness setup runs its calls in order up to the
  first one that returns an error and stops right there through \<open>tb.Fatal\<close>: the run is
  aborted, so neither environment nor client is returned; exactly that error is
  logged as fatal; and the calls made are those of a setup without failure up to and
  including the failing one, none after it. This covers every call whose error the
  source checks: the provider constructors, the handler constructors, the listener
  and the three fixture writes (assembling the environment has no error return). A
  setup returns its results only when no call fails, and then it has made every
  call.
\<close>

theorem NewTestServer_fail_fast:
  "case first_failure w of
     None \<Rightarrow>
       \<not> aborted (NewTestServer w P s0)
       \<and> fatal_log (state_of (NewTestServer w P s0)) = fatal_log s0
       \<and> events (state_of (NewTestServer w P s0)) = events s0 @ setup_trace
   | Some ev \<Rightarrow>
       aborted (NewTestServer w P s0)
       \<and> (\<exists>e. outcome w ev = Some e
              \<and> fatal_log (state_of (NewTestServer w P s0)) = fatal_log s0 @ [e])
       \<and> events (state_of (NewTestServer w P s0))
           = events s0 @ takeWhile (\<lambda>x. x \<noteq> ev) setup_trace @ [ev]"
proof (cases "first_failure w")
  case None
  show ?thesis
    by (simp add: None NewTestServer_returns [OF None] aborted_def state_of_def)
next
  case (Some ev)
  from NewTestServer_aborts [OF Some, of P s0] show ?thesis
    by (auto simp: Some aborted_def state_of_def)
qed

theorem NewTestServer_fail_fast_witness:
  "first_failure failing_export_server = Some Ev_ExportNewServer
   \<and> aborted (NewTestServer failing_export_server Hour fresh)
   \<and> fatal_log (state_of (NewTestServer failing_export_server Hour fresh)) = [''no blobstore'']
   \<and> events (state_of (NewTestServer failing_export_server Hour fresh))
       = [Ev_NewMemoryProvider, Ev_NewMemory, Ev_NewTestDatabase, Ev_KeysNewNoop,
          Ev_SecretsNewNoop, Ev_ServerenvNew, Ev_NewExportHandler,
          Ev_Handle ''/cleanup-export'', Ev_NewExposureHandler,
          Ev_Handle ''/cleanup-exposure'', Ev_ExportNewServer]"
proof -
  have f: "first_failure failing_export_server = Some Ev_ExportNewServer"
    by (simp add: first_failure_def fallible_def failing_export_server_def)
  have o: "outcome failing_export_server Ev_ExportNewServer = Some ''no blobstore''"
    by (simp add: failing_export_server_def)
  from NewTestServer_fail_fast [of failing_export_server Hour fresh] f o
  show ?thesis by (simp add: fresh_def setup_trace_def)
qed

subsection \<open>The database handle\<close>

text \<open>
  C9. The harness never closes the database. If the database was not closed when the
  setup began, it is not closed when the setup ends, aborted or not, nor after the
  body of the serving goroutine has run, nor after the harness's own cleanup
  (\<open>stop\<close>). After a setup that returns the database is open and stays open through
  the harness's cleanup; the setup registers \<open>stop\<close> after the helper registered its
  own closing cleanup, so that at the end of the test \<open>stop\<close> runs first and only the
  helper's cleanup, run after it, closes the database.
\<close>

theorem harness_never_closes_database:
  assumes "db_status s0 \<noteq> Closed"
  shows "db_status (state_of (NewTestServer w P s0)) \<noteq> Closed
         \<and> db_status (serve_goroutine returned (state_of (NewTestServer w P s0))) \<noteq> Closed
         \<and> db_status (run_cleanup Stop (state_of (NewTestServer w P s0))) \<noteq> Closed
         \<and> (\<not> aborted (NewTestServer w P s0) \<longrightarrow>
               db_status (state_of (NewTestServer w P s0)) = Opened
               \<and> db_status (run_cleanup Stop (state_of (NewTestServer w P s0))) = Opened
               \<and> cleanups (state_of (NewTestServer w P s0))
                   = cleanups s0 @ [HelperCloseDatabase, Stop]
               \<and> teardown (state_of (NewTestServer w P s0))
                   = fold run_cleanup (rev (cleanups s0))
                       (run_cleanup HelperCloseDatabase
                          (run_cleanup Stop (state_of (NewTestServer w P s0)))))"
proof (cases "first_failure w")
  case None
  show ?thesis
    by (simp add: NewTestServer_returns [OF None] aborted_def state_of_def serve_goroutine_def
        tb_Error_def teardown_def split: option.splits)
next
  case (Some ev)
  from NewTestServer_aborts [OF Some, of P s0] obtain s where
    "NewTestServer w P s0 = Inl s" "db_status s = db_status s0 \<or> db_status s = Opened"
    by blast
  then show ?thesis using assms
    by (auto simp: aborted_def state_of_def serve_goroutine_def tb_Error_def
        split: option.splits)
qed

theorem harness_never_closes_database_witness:
  "db_status fresh \<noteq> Closed
   \<and> \<not> aborted (NewTestServer ticking Hour fresh)
   \<and> db_status (state_of (NewTestServer ticking Hour fresh)) = Opened
   \<and> db_status (run_cleanup Stop (state_of (NewTestServer ticking Hour fresh))) = Opened
   \<and> cleanups (state_of (NewTestServer ticking Hour fresh)) = [HelperCloseDatabase, Stop]"
proof -
  have a: "db_status fresh \<noteq> Closed" by (simp add: fresh_def)
  have b: "\<not> aborted (NewTestServer ticking Hour fresh)"
    by (simp add: NewTestServer_returns [OF first_failure_ticking] aborted_def)
  from harness_never_closes_database [OF a, of ticking Hour] b
  show ?thesis using a by (simp add: fresh_def)
qed

end
